theory Spec2Isabelle
  imports Complex_Main
begin

unbundle bit_operations_syntax

section \<open>The Milky Way main board v1.1: \<^verbatim>\<open>electronics_mainboard_1v1.py\<close>\<close>

text \<open>
  The class \<open>ElectronicsMainBoard1V1\<close> is embedded as a record of its attributes
  together with a log of what it does to the hardware: every assignment to a
  \<open>duty_cycle\<close> of a PWM channel and every SPI transfer is appended to a list, so
  that "no write" and "exactly one write" are statements about these lists.
  Python integers are \<open>int\<close>, dictionaries are maps, an exception is the \<open>Inl\<close>
  side of a sum, and a method that can touch the object returns the new state
  next to its result.
\<close>

subsection \<open>Values\<close>

text \<open>
  \<open>ValueError\<close> and \<open>KeyError\<close> are the two exceptions the source raises (the first
  by a \<open>raise\<close>, the second by indexing a dictionary).  \<open>ConfigurationError\<close> is
  the failure of the remap lookup (see \<open>board_cfg_get\<close> below).
\<close>

datatype error = ValueError | KeyError | ConfigurationError

text \<open>The two PCA9685 controllers, \<open>self._pca_1\<close> and \<open>self._pca_2\<close>.\<close>

datatype chip = PCA1 | PCA2

text \<open>\<open>controller.channels[i]\<close>: one output of one controller.\<close>

type_synonym pwm_channel = "chip \<times> nat"

text \<open>
  The control objects.  The first argument of every constructor is the identity
  of the Python object (two objects built by two constructor calls differ in
  it), the others are what the constructor was given.
\<close>

type_synonym object_id = int

datatype motor_handle =
    DCMotor object_id pwm_channel pwm_channel
  | DCMotorSim object_id

datatype stepper_handle =
    StepperMotor object_id pwm_channel pwm_channel pwm_channel pwm_channel nat
  | StepperSim object_id

datatype led_handle = LED object_id int

text \<open>
  What the constructor reads from outside: the two flags of the application
  configuration, the board configuration file \<open>hw_milkyway_mainboard1v1\<close>, and
  the device on the SPI bus (what it answers to a transmitted frame).
\<close>

record installation =
  cfg_stepper_motor_enable :: bool
  cfg_chevron_motors_enable :: bool
  cfg_board_file :: "string \<rightharpoonup> int"
  adc_device :: "int list \<Rightarrow> int list"

record board =
  stepper_motor_enable :: bool
  chevron_motors_enable :: bool
  board_cfg :: "string \<rightharpoonup> int"
  pca_frequency :: "chip \<rightharpoonup> nat"
  motor_channels :: "int \<rightharpoonup> motor_handle"
  led_channels :: "int \<rightharpoonup> led_handle"
  stepper1 :: "stepper_handle option"
  motor_attrs :: "string \<rightharpoonup> motor_handle"
  next_object :: object_id
  pwm_writes :: "(chip \<times> nat \<times> nat) list"
  spi_device :: "int list \<Rightarrow> int list"
  spi_transfers :: "int list list"

subsection \<open>Python's \<open>str\<close> on integers\<close>

fun str_nat :: "nat \<Rightarrow> string" where
  "str_nat n = (if n < 10 then [''0123456789'' ! n]
                else str_nat (n div 10) @ [''0123456789'' ! (n mod 10)])"

declare str_nat.simps [simp del]

definition str :: "int \<Rightarrow> string" where
  "str i = (if i < 0 then CHR ''-'' # str_nat (nat (- i)) else str_nat (nat i))"

subsection \<open>Hardware primitives\<close>

text \<open>\<open>controller.channels[index].duty_cycle = v\<close>.\<close>

definition set_duty_cycle :: "chip \<Rightarrow> nat \<Rightarrow> nat \<Rightarrow> board \<Rightarrow> board" where
  "set_duty_cycle controller index v s =
     s\<lparr>pwm_writes := pwm_writes s @ [(controller, index, v)]\<rparr>"

text \<open>A constructor call: the new object's identity.\<close>

definition new_object :: "board \<Rightarrow> object_id \<times> board" where
  "new_object s = (next_object s, s\<lparr>next_object := next_object s + 1\<rparr>)"

text \<open>
  \<open>self.spi.xfer2(msg)\<close>: one full-duplex transaction; the frame goes out and the
  device's answer comes back.
\<close>

definition xfer2 :: "int list \<Rightarrow> board \<Rightarrow> int list \<times> board" where
  "xfer2 msg s = (spi_device s msg, s\<lparr>spi_transfers := spi_transfers s @ [msg]\<rparr>)"

subsection \<open>Motors and stepper\<close>

text \<open>
  The method \<open>_motor\<close>.  It forces the enable channel fully on, builds a
  \<open>DCMotor\<close> over the two polarity channels, stores it in the attribute
  \<open>_motor<name>\<close> and returns that attribute.  It never reads the attribute
  before writing it.
\<close>

definition under_motor ::
  "chip \<Rightarrow> int \<Rightarrow> nat \<times> nat \<times> nat \<Rightarrow> board \<Rightarrow> motor_handle \<times> board" where
  "under_motor controller motor_name channels s =
     (let motor_name = ''_motor'' @ str motor_name;
          (pwm, in_pos, in_neg) = channels;
          s = set_duty_cycle controller pwm 0xFFFF s;
          (i, s) = new_object s;
          m = DCMotor i (controller, in_pos) (controller, in_neg);
          s = s\<lparr>motor_attrs := (motor_attrs s)(motor_name \<mapsto> m)\<rparr>
      in (m, s))"

text \<open>The properties \<open>motor1\<close> .. \<open>motor7\<close>; the tuple is
  \<^verbatim>\<open>[ PWM, IN_POS, IN_NEG ]\<close>.\<close>

definition motor1 :: "board \<Rightarrow> motor_handle \<times> board" where
  "motor1 s = under_motor PCA2 1 (9, 11, 10) s"

definition motor2 :: "board \<Rightarrow> motor_handle \<times> board" where
  "motor2 s = under_motor PCA2 2 (6, 8, 7) s"

definition motor3 :: "board \<Rightarrow> motor_handle \<times> board" where
  "motor3 s = under_motor PCA2 3 (3, 5, 4) s"

definition motor4 :: "board \<Rightarrow> motor_handle \<times> board" where
  "motor4 s = under_motor PCA2 4 (0, 2, 1) s"

definition motor5 :: "board \<Rightarrow> motor_handle \<times> board" where
  "motor5 s = under_motor PCA1 4 (12, 14, 13) s"

definition motor6 :: "board \<Rightarrow> motor_handle \<times> board" where
  "motor6 s = under_motor PCA1 4 (5, 3, 4) s"

definition motor7 :: "board \<Rightarrow> motor_handle \<times> board" where
  "motor7 s = under_motor PCA1 4 (0, 2, 1) s"

text \<open>
  The property \<open>stepper\<close>.  \<open>not self.stepper1\<close> holds when the attribute is
  \<open>None\<close>; a control object, real or simulated, is true in Python.  The record
  logs the two duty-cycle assignments this file makes; what the driver library
  does inside \<open>StepperMotor(...)\<close> is not part of this file.
\<close>

definition stepper :: "board \<Rightarrow> stepper_handle \<times> board" where
  "stepper s =
     (case stepper1 s of
        None \<Rightarrow>
          (let s = set_duty_cycle PCA1 6 0xFFFF s;
               s = set_duty_cycle PCA1 11 0xFFFF s;
               (i, s) = new_object s;
               h = StepperMotor i (PCA1, 8) (PCA1, 7) (PCA1, 9) (PCA1, 10) 16;
               s = s\<lparr>stepper1 := Some h\<rparr>
           in (h, s))
      | Some h \<Rightarrow> (h, s))"

definition init_motor_hardware :: "board \<Rightarrow> board" where
  "init_motor_hardware s =
     (let s = s\<lparr>pca_frequency := (pca_frequency s)(PCA1 \<mapsto> 1600)\<rparr>;
          s = s\<lparr>pca_frequency := (pca_frequency s)(PCA2 \<mapsto> 1600)\<rparr>;
          s = (if chevron_motors_enable s then
                 (let (m1, s) = motor1 s;
                      (m2, s) = motor2 s;
                      (m3, s) = motor3 s;
                      (m4, s) = motor4 s;
                      (m5, s) = motor5 s;
                      (m6, s) = motor6 s;
                      (m7, s) = motor7 s
                  in s\<lparr>motor_channels :=
                        [1 \<mapsto> m1, 2 \<mapsto> m2, 3 \<mapsto> m3, 4 \<mapsto> m4, 5 \<mapsto> m5, 6 \<mapsto> m6, 7 \<mapsto> m7]\<rparr>)
               else
                 (let (i1, s) = new_object s;
                      (i2, s) = new_object s;
                      (i3, s) = new_object s;
                      (i4, s) = new_object s;
                      (i5, s) = new_object s;
                      (i6, s) = new_object s;
                      (i7, s) = new_object s
                  in s\<lparr>motor_channels :=
                        [1 \<mapsto> DCMotorSim i1, 2 \<mapsto> DCMotorSim i2, 3 \<mapsto> DCMotorSim i3,
                         4 \<mapsto> DCMotorSim i4, 5 \<mapsto> DCMotorSim i5, 6 \<mapsto> DCMotorSim i6,
                         7 \<mapsto> DCMotorSim i7]\<rparr>))
      in if stepper_motor_enable s then
           (let (h, s) = stepper s in s\<lparr>stepper1 := Some h\<rparr>)
         else
           (let (i, s) = new_object s in s\<lparr>stepper1 := Some (StepperSim i)\<rparr>))"

definition init_led_gpio :: "board \<Rightarrow> board" where
  "init_led_gpio s =
     (let (i1, s) = new_object s;
          (i2, s) = new_object s;
          (i3, s) = new_object s;
          (i4, s) = new_object s;
          (i5, s) = new_object s;
          (i6, s) = new_object s;
          (i7, s) = new_object s
      in s\<lparr>led_channels :=
            [1 \<mapsto> LED i1 22, 2 \<mapsto> LED i2 25, 3 \<mapsto> LED i3 5, 4 \<mapsto> LED i4 19,
             5 \<mapsto> LED i5 26, 6 \<mapsto> LED i6 21, 7 \<mapsto> LED i7 20]\<rparr>)"

text \<open>
  The constructor \<open>__init__\<close>: the attributes are set to \<open>None\<close>, then
  \<open>init_motor_hardware\<close> and \<open>init_led_gpio\<close> run.  (The pixel ring and the
  opening of the SPI device touch neither a PWM channel nor the SPI bus.)
\<close>

definition ElectronicsMainBoard1V1 :: "installation \<Rightarrow> board" where
  "ElectronicsMainBoard1V1 inst =
     init_led_gpio (init_motor_hardware
       \<lparr>stepper_motor_enable = cfg_stepper_motor_enable inst,
        chevron_motors_enable = cfg_chevron_motors_enable inst,
        board_cfg = cfg_board_file inst,
        pca_frequency = Map.empty,
        motor_channels = Map.empty,
        led_channels = Map.empty,
        stepper1 = None,
        motor_attrs = Map.empty,
        next_object = 0,
        pwm_writes = [],
        spi_device = adc_device inst,
        spi_transfers = []\<rparr>)"

subsection \<open>Chevron lookups\<close>

text \<open>
  Modelled from the spec: \<open>StargateConfig.get\<close> (module \<open>stargate_config\<close>) is not
  among the sources.  The spec says of the remap lookup that it fails with
  ConfigurationError if the chevron has no remap entry; a key that is present
  yields its value.
\<close>

definition board_cfg_get :: "board \<Rightarrow> string \<Rightarrow> error + int" where
  "board_cfg_get s key =
     (case board_cfg s key of None \<Rightarrow> Inl ConfigurationError | Some v \<Rightarrow> Inr v)"

definition get_chevron_led :: "int \<Rightarrow> board \<Rightarrow> (error + led_handle) \<times> board" where
  "get_chevron_led chevron_number s =
     (case board_cfg_get s (''chevron_'' @ str chevron_number @ ''_led_channel'') of
        Inl e \<Rightarrow> (Inl e, s)
      | Inr channel \<Rightarrow>
          (case led_channels s channel of
             None \<Rightarrow> (Inl KeyError, s)
           | Some l \<Rightarrow> (Inr l, s)))"

definition get_chevron_motor :: "int \<Rightarrow> board \<Rightarrow> (error + motor_handle) \<times> board" where
  "get_chevron_motor chevron_number s =
     (case board_cfg_get s (''chevron_'' @ str chevron_number @ ''_motor_channel'') of
        Inl e \<Rightarrow> (Inl e, s)
      | Inr channel \<Rightarrow>
          (case motor_channels s channel of
             None \<Rightarrow> (Inl KeyError, s)
           | Some m \<Rightarrow> (Inr m, s)))"

definition get_stepper :: "board \<Rightarrow> stepper_handle \<times> board" where
  "get_stepper s = stepper s"

text \<open>
  Modelled from the spec: \<open>StepperSim\<close> and \<open>DCMotorSim\<close> (module
  \<open>hardware_simulation\<close>) are not among the sources.  The spec requires of the
  simulated stand-ins the same call contract as the real handles (construct,
  set throttle or direction) with no physical effect: constructing one only
  yields a new object, as in \<open>init_motor_hardware\<close> above, and \<open>onestep\<close> and
  \<open>release\<close>, the calls of the stepper contract, leave the board as it is.
\<close>

definition StepperSim_onestep :: "int \<Rightarrow> int \<Rightarrow> board \<Rightarrow> board" where
  "StepperSim_onestep direction style s = s"

definition StepperSim_release :: "board \<Rightarrow> board" where
  "StepperSim_release s = s"

subsection \<open>Stepper drive modes\<close>

text \<open>
  The constants of the driver library \<open>adafruit_motor.stepper\<close> (third party, not
  part of this repository), with the values that library gives them.
\<close>

definition FORWARD :: int where "FORWARD = 1"
definition BACKWARD :: int where "BACKWARD = 2"
definition SINGLE :: int where "SINGLE = 1"
definition DOUBLE :: int where "DOUBLE = 2"
definition INTERLEAVE :: int where "INTERLEAVE = 3"
definition MICROSTEP :: int where "MICROSTEP = 4"

definition drive_modes :: "string \<rightharpoonup> int" where
  "drive_modes =
     [''double'' \<mapsto> DOUBLE, ''single'' \<mapsto> SINGLE,
      ''interleave'' \<mapsto> INTERLEAVE, ''microstep'' \<mapsto> MICROSTEP]"

text \<open>\<open>try: return self.drive_modes[drive_mode]  except KeyError: return self.drive_modes['double']\<close>\<close>

definition get_stepper_drive_mode :: "string \<Rightarrow> error + int" where
  "get_stepper_drive_mode drive_mode =
     (case drive_modes drive_mode of
        Some c \<Rightarrow> Inr c
      | None \<Rightarrow>
          (case drive_modes ''double'' of
             Some c \<Rightarrow> Inr c
           | None \<Rightarrow> Inl KeyError))"

subsection \<open>The analog sampler\<close>

definition adc_resolution :: int where "adc_resolution = 10"

text \<open>
  \<open>self.adc_vref = 3.3\<close>.  Python computes with binary floating point; the model
  evaluates the same expressions over the reals.
\<close>

definition adc_vref :: real where "adc_vref = 3.3"

text \<open>The loop \<open>for byte in reply: adc_value = (adc_value << 8) + byte\<close>.\<close>

fun reply_loop :: "int list \<Rightarrow> int \<Rightarrow> int" where
  "reply_loop [] adc_value = adc_value"
| "reply_loop (byte # reply) adc_value = reply_loop reply (push_bit 8 adc_value + byte)"

definition get_adc_by_channel :: "int \<Rightarrow> board \<Rightarrow> (error + int) \<times> board" where
  "get_adc_by_channel adc_ch s =
     (if adc_ch \<notin> set [0, 1] then (Inl ValueError, s)
      else
        (let msg = 3;
             msg = push_bit 5 (push_bit 1 msg + adc_ch);
             msg = [msg, 0];
             (reply, s) = xfer2 msg s;
             adc_value = 0;
             adc_value = reply_loop reply adc_value;
             adc_value = drop_bit 1 adc_value
         in (Inr adc_value, s)))"

text \<open>
  \<open>return (self.adc_vref * adc_value) / (2^self.adc_resolution)-1\<close>: in Python
  \<open>^\<close> is bitwise exclusive or, and the subtraction applies to the quotient.
\<close>

definition adc_to_voltage :: "int \<Rightarrow> real" where
  "adc_to_voltage adc_value =
     (adc_vref * of_int adc_value) / of_int (2 XOR adc_resolution) - 1"

definition get_homing_sensor_voltage :: "board \<Rightarrow> (error + real) \<times> board" where
  "get_homing_sensor_voltage s =
     (case get_adc_by_channel 0 s of
        (Inl e, s) \<Rightarrow> (Inl e, s)
      | (Inr adc_value, s) \<Rightarrow> (Inr (adc_to_voltage adc_value), s))"

section \<open>The chevron table: \<^verbatim>\<open>chevrons.py\<close>\<close>

text \<open>
  \<open>Chevron(led, motor)\<close>: "the first number in the parenthesis is the gpio led
  number and the second value is the motor number".
\<close>

record Chevron =
  led_gpio :: "int option"
  motor_number :: int

definition chevrons :: "int \<rightharpoonup> Chevron" where
  "chevrons =
     [1 \<mapsto> \<lparr>led_gpio = Some 21, motor_number = 3\<rparr>,
      2 \<mapsto> \<lparr>led_gpio = Some 16, motor_number = 4\<rparr>,
      3 \<mapsto> \<lparr>led_gpio = Some 20, motor_number = 5\<rparr>,
      4 \<mapsto> \<lparr>led_gpio = Some 26, motor_number = 6\<rparr>,
      5 \<mapsto> \<lparr>led_gpio = Some 6, motor_number = 7\<rparr>,
      6 \<mapsto> \<lparr>led_gpio = Some 13, motor_number = 8\<rparr>,
      7 \<mapsto> \<lparr>led_gpio = Some 19, motor_number = 9\<rparr>,
      8 \<mapsto> \<lparr>led_gpio = None, motor_number = 10\<rparr>,
      9 \<mapsto> \<lparr>led_gpio = None, motor_number = 11\<rparr>]"

section \<open>Observations on the hardware log\<close>

text \<open>
  The PWM channel that each of the properties \<open>motor1\<close> .. \<open>motor7\<close> forces on (the
  first component of its tuple), by the key under which \<open>init_motor_hardware\<close>
  registers the motor, and the seven assignments in the order of the dictionary
  display.
\<close>

definition motor_enable_channel :: "int \<rightharpoonup> pwm_channel" where
  "motor_enable_channel =
     [1 \<mapsto> (PCA2, 9), 2 \<mapsto> (PCA2, 6), 3 \<mapsto> (PCA2, 3), 4 \<mapsto> (PCA2, 0),
      5 \<mapsto> (PCA1, 12), 6 \<mapsto> (PCA1, 5), 7 \<mapsto> (PCA1, 0)]"

definition motor_enable_writes :: "(chip \<times> nat \<times> nat) list" where
  "motor_enable_writes =
     [(PCA2, 9, 0xFFFF), (PCA2, 6, 0xFFFF), (PCA2, 3, 0xFFFF), (PCA2, 0, 0xFFFF),
      (PCA1, 12, 0xFFFF), (PCA1, 5, 0xFFFF), (PCA1, 0, 0xFFFF)]"

text \<open>How many duty-cycle assignments the log holds for one channel.\<close>

definition writes_to :: "pwm_channel \<Rightarrow> board \<Rightarrow> nat" where
  "writes_to p s = length (filter (\<lambda>(c, i, v). (c, i) = p) (pwm_writes s))"

text \<open>A caller that asks for the motor of the same chevron \<open>k\<close> times in a row.\<close>

fun repeat_get_chevron_motor ::
  "nat \<Rightarrow> int \<Rightarrow> board \<Rightarrow> (error + motor_handle) list \<times> board" where
  "repeat_get_chevron_motor 0 n s = ([], s)"
| "repeat_get_chevron_motor (Suc k) n s =
     (let (r, s) = get_chevron_motor n s;
          (rs, s) = repeat_get_chevron_motor k n s
      in (r # rs, s))"

text \<open>
  A sample installation for the concrete evaluations: chevron 3 is wired to
  channel 5, chevron 8 to channel 8, no other chevron has an entry, and the ADC
  answers every frame with the same reply.
\<close>

definition example_installation :: "bool \<Rightarrow> bool \<Rightarrow> int list \<Rightarrow> installation" where
  "example_installation stepper_on motors_on reply =
     \<lparr>cfg_stepper_motor_enable = stepper_on,
      cfg_chevron_motors_enable = motors_on,
      cfg_board_file =
        [''chevron_3_led_channel'' \<mapsto> 5, ''chevron_3_motor_channel'' \<mapsto> 5,
         ''chevron_8_led_channel'' \<mapsto> 8, ''chevron_8_motor_channel'' \<mapsto> 8],
      adc_device = (\<lambda>msg. reply)\<rparr>"

section \<open>The board after construction\<close>

lemmas init_defs =
  ElectronicsMainBoard1V1_def init_led_gpio_def init_motor_hardware_def
  motor1_def motor2_def motor3_def motor4_def motor5_def motor6_def motor7_def
  under_motor_def stepper_def set_duty_cycle_def new_object_def Let_def

lemma init_pwm_writes:
  "pwm_writes (ElectronicsMainBoard1V1 inst) =
     (if cfg_chevron_motors_enable inst then motor_enable_writes else [])
     @ (if cfg_stepper_motor_enable inst then [(PCA1, 6, 0xFFFF), (PCA1, 11, 0xFFFF)] else [])"
  by (simp add: init_defs motor_enable_writes_def)

lemma init_motor_channels:
  "motor_channels (ElectronicsMainBoard1V1 inst) =
     (if cfg_chevron_motors_enable inst then
        [1 \<mapsto> DCMotor 0 (PCA2, 11) (PCA2, 10), 2 \<mapsto> DCMotor 1 (PCA2, 8) (PCA2, 7),
         3 \<mapsto> DCMotor 2 (PCA2, 5) (PCA2, 4), 4 \<mapsto> DCMotor 3 (PCA2, 2) (PCA2, 1),
         5 \<mapsto> DCMotor 4 (PCA1, 14) (PCA1, 13), 6 \<mapsto> DCMotor 5 (PCA1, 3) (PCA1, 4),
         7 \<mapsto> DCMotor 6 (PCA1, 2) (PCA1, 1)]
      else
        [1 \<mapsto> DCMotorSim 0, 2 \<mapsto> DCMotorSim 1, 3 \<mapsto> DCMotorSim 2, 4 \<mapsto> DCMotorSim 3,
         5 \<mapsto> DCMotorSim 4, 6 \<mapsto> DCMotorSim 5, 7 \<mapsto> DCMotorSim 6])"
  by (simp add: init_defs)

lemma init_stepper1:
  "stepper1 (ElectronicsMainBoard1V1 inst) =
     Some (if cfg_stepper_motor_enable inst
           then StepperMotor 7 (PCA1, 8) (PCA1, 7) (PCA1, 9) (PCA1, 10) 16
           else StepperSim 7)"
  by (simp add: init_defs)

lemma init_led_channels:
  "led_channels (ElectronicsMainBoard1V1 inst) =
     [1 \<mapsto> LED 8 22, 2 \<mapsto> LED 9 25, 3 \<mapsto> LED 10 5, 4 \<mapsto> LED 11 19,
      5 \<mapsto> LED 12 26, 6 \<mapsto> LED 13 21, 7 \<mapsto> LED 14 20]"
  by (simp add: init_defs)

lemma init_board_cfg: "board_cfg (ElectronicsMainBoard1V1 inst) = cfg_board_file inst"
  by (simp add: init_defs)

lemma init_spi_transfers: "spi_transfers (ElectronicsMainBoard1V1 inst) = []"
  by (simp add: init_defs)

lemma init_spi_device: "spi_device (ElectronicsMainBoard1V1 inst) = adc_device inst"
  by (simp add: init_defs)

text \<open>The sample installation, evaluated.\<close>

lemma str_digits: "str 3 = ''3''" "str 8 = ''8''" "str 9 = ''9''"
  by (simp_all add: str_def str_nat.simps)

lemma example_fields:
  "cfg_stepper_motor_enable (example_installation x y r) = x"
  "cfg_chevron_motors_enable (example_installation x y r) = y"
  "cfg_board_file (example_installation x y r) =
     [''chevron_3_led_channel'' \<mapsto> 5, ''chevron_3_motor_channel'' \<mapsto> 5,
      ''chevron_8_led_channel'' \<mapsto> 8, ''chevron_8_motor_channel'' \<mapsto> 8]"
  "adc_device (example_installation x y r) = (\<lambda>msg. r)"
  by (simp_all add: example_installation_def)

lemmas example_simps = str_digits example_fields

section \<open>The analog sampler\<close>

lemma adc_to_voltage_formula: "adc_to_voltage r = 3.3 * of_int r / 8 - 1"
  by (simp add: adc_to_voltage_def adc_vref_def adc_resolution_def)

text \<open>A valid channel: one frame goes out, the reply is reassembled and shifted.\<close>

lemma get_adc_by_channel_reply:
  "adc_ch = 0 \<or> adc_ch = 1 \<Longrightarrow>
   get_adc_by_channel adc_ch s =
     (Inr (drop_bit 1 (reply_loop (spi_device s [push_bit 5 (6 + adc_ch), 0]) 0)),
      s\<lparr>spi_transfers := spi_transfers s @ [[push_bit 5 (6 + adc_ch), 0]]\<rparr>)"
  by (auto simp add: get_adc_by_channel_def xfer2_def Let_def)

text \<open>
  C1.  The claim: for every raw value \<open>r\<close>, \<open>adc_to_voltage\<close> (and with it the homing
  voltage) is \<open>Vref * r / 2^10\<close> and lies between 0 and \<open>Vref\<close>.  The source computes
  \<open>Vref * r / (2 XOR 10) - 1\<close>, that is \<open>Vref * r / 8 - 1\<close>: at the raw value 0 the
  result is -1, which is neither \<open>Vref * 0 / 2^10\<close> nor in the range, and the homing
  voltage read from a device that answers \<open>[0, 0]\<close> is -1.  (At this input every
  intermediate floating-point result, 0.0, 0.0 and -1.0, is exact.)
\<close>

theorem adc_to_voltage_at_zero:
  "adc_to_voltage 0 = - 1
   \<and> adc_to_voltage 0 \<noteq> adc_vref * 0 / 2 ^ 10
   \<and> \<not> 0 \<le> adc_to_voltage 0
   \<and> fst (get_homing_sensor_voltage
        (ElectronicsMainBoard1V1 (example_installation False False [0, 0]))) = Inr (- 1)"
  by (simp add: adc_to_voltage_formula get_homing_sensor_voltage_def get_adc_by_channel_reply
      init_spi_device example_fields)

text \<open>
  C2.  The claim, as stated: for the reply \<open>[0b01100000, 0b00000000]\<close> the decoded raw
  value is \<open>0b0110000000 >> 1\<close>, which is 192.  On the code the two bytes are
  concatenated to the sixteen-bit \<open>0b0110000000000000\<close> and the shift gives 12288.
\<close>

theorem decode_fixture_not_192:
  "fst (get_adc_by_channel 0
      (ElectronicsMainBoard1V1 (example_installation False False [0x60, 0x00]))) = Inr 12288
   \<and> (12288 :: int) \<noteq> drop_bit 1 0x180"
  by (simp add: get_adc_by_channel_reply init_spi_device example_fields)

text \<open>
  C2, as amended: for the reply \<open>[0b01100000, 0b00000000]\<close>, on either channel and
  whatever the state of the board, the decoded raw value is
  \<open>0b0110000000000000 >> 1\<close> (\<open>0x6000 >> 1\<close>), which is 12288.
\<close>

theorem decode_fixture_value:
  "fst (get_adc_by_channel 0 (s\<lparr>spi_device := \<lambda>msg. [0x60, 0x00]\<rparr>)) = Inr (drop_bit 1 0x6000)
   \<and> fst (get_adc_by_channel 1 (s\<lparr>spi_device := \<lambda>msg. [0x60, 0x00]\<rparr>)) = Inr (drop_bit 1 0x6000)
   \<and> drop_bit 1 (0x6000 :: int) = 12288"
  by (simp add: get_adc_by_channel_reply)

text \<open>
  C3.  The claim, as stated: for every two-byte reply the raw value returned by
  \<open>get_adc_by_channel\<close> lies in 0..1023.  The reply \<open>[255, 255]\<close> gives 32767: the
  source shifts the sixteen bits right by one and masks nothing.
\<close>

theorem adc_raw_exceeds_1023:
  "fst (get_adc_by_channel 0
      (ElectronicsMainBoard1V1 (example_installation False False [255, 255]))) = Inr 32767
   \<and> \<not> (32767 :: int) \<le> 1023"
  by (simp add: get_adc_by_channel_reply init_spi_device example_fields)

text \<open>
  C3, as amended: for every two-byte reply \<open>[b0, b1]\<close> with both bytes in 0..255,
  \<open>get_adc_by_channel\<close> on a valid channel returns \<open>(256 * b0 + b1) div 2\<close>, which lies
  in 0..32767 (fifteen bits); it lies in 0..1023 exactly when the first byte is at
  most 7, that is when its upper five bits are zero.
\<close>

theorem adc_raw_range:
  assumes "adc_ch = 0 \<or> adc_ch = 1"
      and "0 \<le> b0" and "b0 \<le> 255" and "0 \<le> b1" and "b1 \<le> 255"
  shows "\<exists>v. fst (get_adc_by_channel adc_ch (s\<lparr>spi_device := \<lambda>msg. [b0, b1]\<rparr>)) = Inr v
           \<and> v = (256 * b0 + b1) div 2
           \<and> 0 \<le> v \<and> v \<le> 32767
           \<and> (v \<le> 1023) = (b0 \<le> 7)"
  using assms
  by (auto simp add: get_adc_by_channel_reply push_bit_eq_mult drop_bit_eq_div)

theorem adc_raw_range_witness:
  "((0::int) = 0 \<or> (0::int) = 1)
   \<and> (0::int) \<le> 7 \<and> (7::int) \<le> 255 \<and> (0::int) \<le> 254 \<and> (254::int) \<le> 255
   \<and> fst (get_adc_by_channel 0
        ((ElectronicsMainBoard1V1 (example_installation False False []))
           \<lparr>spi_device := \<lambda>msg. [7, 254]\<rparr>)) = Inr 1023"
  using adc_raw_range
    [of 0 7 254 "ElectronicsMainBoard1V1 (example_installation False False [])"]
  by simp

text \<open>
  C5.  For every channel argument other than 0 and 1 (2 and -1 among them),
  \<open>get_adc_by_channel\<close> fails with an error (the source raises \<open>ValueError\<close>) and
  the board, its SPI transfer log included, is left as it was: nothing is
  transmitted.
\<close>

theorem get_adc_by_channel_rejects:
  assumes "adc_ch \<noteq> 0" and "adc_ch \<noteq> 1"
  shows "get_adc_by_channel adc_ch s = (Inl ValueError, s)
         \<and> spi_transfers (snd (get_adc_by_channel adc_ch s)) = spi_transfers s"
  using assms by (simp add: get_adc_by_channel_def)

theorem get_adc_by_channel_rejects_witness:
  "(2::int) \<noteq> 0 \<and> (2::int) \<noteq> 1
   \<and> fst (get_adc_by_channel 2
        (ElectronicsMainBoard1V1 (example_installation False False [0, 0]))) = Inl ValueError
   \<and> fst (get_adc_by_channel (- 1)
        (ElectronicsMainBoard1V1 (example_installation False False [0, 0]))) = Inl ValueError
   \<and> spi_transfers (snd (get_adc_by_channel 2
        (ElectronicsMainBoard1V1 (example_installation False False [0, 0])))) = []
   \<and> spi_transfers (snd (get_adc_by_channel (- 1)
        (ElectronicsMainBoard1V1 (example_installation False False [0, 0])))) = []"
  using get_adc_by_channel_rejects
      [of 2 "ElectronicsMainBoard1V1 (example_installation False False [0, 0])"]
    get_adc_by_channel_rejects
      [of "- 1" "ElectronicsMainBoard1V1 (example_installation False False [0, 0])"]
  by (simp add: init_spi_transfers)

section \<open>Stepper drive modes\<close>

text \<open>
  C6.  The lookup maps "double", "single", "interleave" and "microstep" to the
  driver constants \<open>DOUBLE\<close>, \<open>SINGLE\<close>, \<open>INTERLEAVE\<close> and \<open>MICROSTEP\<close>, which are four
  different values, and every name outside the table gets what "double" gets;
  the lookup never raises.
\<close>

theorem get_stepper_drive_mode_table:
  "get_stepper_drive_mode ''double'' = Inr DOUBLE
   \<and> get_stepper_drive_mode ''single'' = Inr SINGLE
   \<and> get_stepper_drive_mode ''interleave'' = Inr INTERLEAVE
   \<and> get_stepper_drive_mode ''microstep'' = Inr MICROSTEP
   \<and> distinct [DOUBLE, SINGLE, INTERLEAVE, MICROSTEP]
   \<and> (name \<notin> {''double'', ''single'', ''interleave'', ''microstep''}
        \<longrightarrow> get_stepper_drive_mode name = get_stepper_drive_mode ''double'')"
  by (simp add: get_stepper_drive_mode_def drive_modes_def
      DOUBLE_def SINGLE_def INTERLEAVE_def MICROSTEP_def)

theorem get_stepper_drive_mode_table_witness:
  "''bogus'' \<notin> {''double'', ''single'', ''interleave'', ''microstep''}
   \<and> get_stepper_drive_mode ''bogus'' = get_stepper_drive_mode ''double''
   \<and> get_stepper_drive_mode ''bogus'' = Inr DOUBLE"
  using get_stepper_drive_mode_table [of "''bogus''"]
  by simp

section \<open>Chevron motors\<close>

lemma get_chevron_motor_state: "snd (get_chevron_motor n s) = s"
  by (simp add: get_chevron_motor_def split: sum.splits option.splits)

lemma repeat_same:
  "get_chevron_motor n s = (r, s) \<Longrightarrow> repeat_get_chevron_motor k n s = (replicate k r, s)"
  by (induction k) simp_all

lemma channel_cases:
  "1 \<le> ch \<Longrightarrow> ch \<le> 7 \<Longrightarrow>
   ch = 1 \<or> ch = 2 \<or> ch = 3 \<or> ch = 4 \<or> ch = 5 \<or> ch = 6 \<or> ch = (7::int)"
  by arith

lemma get_chevron_motor_hit:
  "board_cfg s (''chevron_'' @ str n @ ''_motor_channel'') = Some ch \<Longrightarrow>
   motor_channels s ch = Some h \<Longrightarrow> get_chevron_motor n s = (Inr h, s)"
  by (simp add: get_chevron_motor_def board_cfg_get_def)

lemma init_writes_to:
  "motor_enable_channel ch = Some p \<Longrightarrow>
   writes_to p (ElectronicsMainBoard1V1 inst) = (if cfg_chevron_motors_enable inst then 1 else 0)"
  by (auto simp add: writes_to_def init_pwm_writes motor_enable_writes_def
      motor_enable_channel_def split: if_splits)

lemma init_motor_channels_some:
  "1 \<le> ch \<Longrightarrow> ch \<le> 7 \<Longrightarrow> \<exists>h. motor_channels (ElectronicsMainBoard1V1 inst) ch = Some h"
  using channel_cases [of ch]
  by (cases "cfg_chevron_motors_enable inst") (auto simp add: init_motor_channels)

text \<open>
  The motor properties themselves do not cache: read twice, \<open>motor1\<close> builds two
  different objects and writes the enable channel twice.  The board reads each
  property once, in \<open>init_motor_hardware\<close>, and hands out the stored objects.
\<close>

lemma motor1_twice:
  "motor1 s = (m, s1) \<Longrightarrow> motor1 s1 = (m', s2) \<Longrightarrow>
   m' \<noteq> m \<and> pwm_writes s2 = pwm_writes s @ [(PCA2, 9, 0xFFFF), (PCA2, 9, 0xFFFF)]"
  by (auto simp add: motor1_def under_motor_def set_duty_cycle_def new_object_def Let_def)

lemma example_motor_key:
  "cfg_board_file (example_installation x y r) (''chevron_'' @ str 3 @ ''_motor_channel'') = Some 5"
  by (simp add: example_simps)

text \<open>
  C4.  The claim, as stated: for a chevron with a valid remap entry two calls of
  \<open>get_chevron_motor\<close> return the same handle, and the enable-channel duty-cycle
  write happens exactly once over the lifetime of the process.  With
  \<open>chevron_motors_enable\<close> off the handles are simulated and no duty-cycle write
  happens at all: two requests for chevron 3 return the same \<open>DCMotorSim\<close> and the
  log of PWM writes is empty afterwards.
\<close>

theorem sim_motor_no_enable_write:
  "fst (repeat_get_chevron_motor 2 3
      (ElectronicsMainBoard1V1 (example_installation False False [0, 0])))
     = [Inr (DCMotorSim 4), Inr (DCMotorSim 4)]
   \<and> pwm_writes (snd (repeat_get_chevron_motor 2 3
        (ElectronicsMainBoard1V1 (example_installation False False [0, 0])))) = []"
proof -
  let ?b = "ElectronicsMainBoard1V1 (example_installation False False [0, 0])"
  have "get_chevron_motor 3 ?b = (Inr (DCMotorSim 4), ?b)"
    by (rule get_chevron_motor_hit [where ch = 5])
       (simp_all add: init_board_cfg init_motor_channels example_simps)
  then have "repeat_get_chevron_motor 2 3 ?b = (replicate 2 (Inr (DCMotorSim 4)), ?b)"
    by (rule repeat_same)
  then show ?thesis
    by (simp add: numeral_2_eq_2 init_pwm_writes example_simps)
qed

text \<open>
  C4, as amended: for a chevron whose remap entry names one of the channels 1..7,
  any number of calls of \<open>get_chevron_motor\<close> return the same handle object and
  leave the board as it was; the duty-cycle write to the enable channel of that
  motor happens exactly once over the lifetime of the process when
  \<open>chevron_motors_enable\<close> is set, and never when it is not (the handle is then
  simulated).
\<close>

theorem get_chevron_motor_same_handle:
  assumes "cfg_board_file inst (''chevron_'' @ str n @ ''_motor_channel'') = Some ch"
      and "1 \<le> ch" and "ch \<le> 7"
  shows "\<exists>h p. motor_channels (ElectronicsMainBoard1V1 inst) ch = Some h
           \<and> motor_enable_channel ch = Some p
           \<and> (\<forall>k. repeat_get_chevron_motor k n (ElectronicsMainBoard1V1 inst)
                   = (replicate k (Inr h), ElectronicsMainBoard1V1 inst))
           \<and> writes_to p (ElectronicsMainBoard1V1 inst)
               = (if cfg_chevron_motors_enable inst then 1 else 0)"
proof -
  let ?b = "ElectronicsMainBoard1V1 inst"
  from assms(2,3) have cases: "ch = 1 \<or> ch = 2 \<or> ch = 3 \<or> ch = 4 \<or> ch = 5 \<or> ch = 6 \<or> ch = 7"
    by (rule channel_cases)
  from assms(2,3) obtain h where h: "motor_channels ?b ch = Some h"
    using init_motor_channels_some by blast
  from cases obtain p where p: "motor_enable_channel ch = Some p"
    by (auto simp add: motor_enable_channel_def)
  from assms(1) have "board_cfg ?b (''chevron_'' @ str n @ ''_motor_channel'') = Some ch"
    by (simp add: init_board_cfg)
  then have "get_chevron_motor n ?b = (Inr h, ?b)"
    using h by (rule get_chevron_motor_hit)
  then have "\<forall>k. repeat_get_chevron_motor k n ?b = (replicate k (Inr h), ?b)"
    by (simp add: repeat_same)
  moreover have "writes_to p ?b = (if cfg_chevron_motors_enable inst then 1 else 0)"
    using p by (rule init_writes_to)
  ultimately show ?thesis using h p by blast
qed

theorem get_chevron_motor_same_handle_witness:
  "cfg_board_file (example_installation True True [0, 0])
      (''chevron_'' @ str 3 @ ''_motor_channel'') = Some 5
   \<and> (1::int) \<le> 5 \<and> (5::int) \<le> 7
   \<and> (\<forall>k. repeat_get_chevron_motor k 3
            (ElectronicsMainBoard1V1 (example_installation True True [0, 0]))
          = (replicate k (Inr (DCMotor 4 (PCA1, 14) (PCA1, 13))),
             ElectronicsMainBoard1V1 (example_installation True True [0, 0])))
   \<and> writes_to (PCA1, 12) (ElectronicsMainBoard1V1 (example_installation True True [0, 0])) = 1"
  using get_chevron_motor_same_handle [OF example_motor_key, of True True "[0, 0]"]
  by (simp add: example_simps init_motor_channels motor_enable_channel_def)

text \<open>
  C7.  The claim, as stated: before the first request for a motor no control
  object exists for it and its enable channel has not been written; both happen
  on first access, not during initialisation.  On the code the dictionary
  display of \<open>init_motor_hardware\<close> reads the seven properties at once: on the
  board as the constructor returns it, with no request made, channel 1 holds its
  \<open>DCMotor\<close> and the first PWM write in the log is the one to its enable channel.
\<close>

theorem motor_built_before_request:
  "motor_channels (ElectronicsMainBoard1V1 (example_installation True True [0, 0])) 1
     = Some (DCMotor 0 (PCA2, 11) (PCA2, 10))
   \<and> pwm_writes (ElectronicsMainBoard1V1 (example_installation True True [0, 0])) ! 0
     = (PCA2, 9, 0xFFFF)
   \<and> writes_to (PCA2, 9) (ElectronicsMainBoard1V1 (example_installation True True [0, 0])) = 1"
  by (simp add: init_motor_channels init_pwm_writes writes_to_def motor_enable_writes_def
      example_simps)

text \<open>
  C7, as amended: motor handles are constructed during board initialisation.  On
  the board as the constructor returns it every channel 1..7 already holds its
  control object: a \<open>DCMotor\<close> whose enable channel has been written exactly once
  when \<open>chevron_motors_enable\<close> is set, a \<open>DCMotorSim\<close> with no write otherwise.  A
  request through \<open>get_chevron_motor\<close> constructs nothing and writes nothing.
\<close>

theorem motors_built_during_init:
  assumes "1 \<le> ch" and "ch \<le> 7"
  shows "\<exists>h e. motor_channels (ElectronicsMainBoard1V1 inst) ch = Some h
           \<and> motor_enable_channel ch = Some e
           \<and> (case h of
                 DCMotor i p q \<Rightarrow>
                   cfg_chevron_motors_enable inst \<and> writes_to e (ElectronicsMainBoard1V1 inst) = 1
               | DCMotorSim i \<Rightarrow>
                   \<not> cfg_chevron_motors_enable inst \<and> writes_to e (ElectronicsMainBoard1V1 inst) = 0)
           \<and> (\<forall>n. snd (get_chevron_motor n (ElectronicsMainBoard1V1 inst))
                   = ElectronicsMainBoard1V1 inst)"
proof -
  let ?b = "ElectronicsMainBoard1V1 inst"
  from assms have cases: "ch = 1 \<or> ch = 2 \<or> ch = 3 \<or> ch = 4 \<or> ch = 5 \<or> ch = 6 \<or> ch = 7"
    by (rule channel_cases)
  then obtain e where e: "motor_enable_channel ch = Some e"
    by (auto simp add: motor_enable_channel_def)
  then have w: "writes_to e ?b = (if cfg_chevron_motors_enable inst then 1 else 0)"
    by (rule init_writes_to)
  show ?thesis
  proof (cases "cfg_chevron_motors_enable inst")
    case True
    with cases obtain i p q where "motor_channels ?b ch = Some (DCMotor i p q)"
      by (auto simp add: init_motor_channels)
    with True e w show ?thesis by (simp add: get_chevron_motor_state)
  next
    case False
    with cases obtain i where "motor_channels ?b ch = Some (DCMotorSim i)"
      by (auto simp add: init_motor_channels)
    with False e w show ?thesis by (simp add: get_chevron_motor_state)
  qed
qed

theorem motors_built_during_init_witness:
  "(1::int) \<le> 2 \<and> (2::int) \<le> 7
   \<and> motor_channels (ElectronicsMainBoard1V1 (example_installation False True [0, 0])) 2
       = Some (DCMotor 1 (PCA2, 8) (PCA2, 7))
   \<and> writes_to (PCA2, 6) (ElectronicsMainBoard1V1 (example_installation False True [0, 0])) = 1"
  using motors_built_during_init [of 2 "example_installation False True [0, 0]"]
  by (simp add: init_motor_channels motor_enable_channel_def example_simps)

section \<open>Chevron lookups\<close>

text \<open>
  C8.  For every chevron index with no remap entry, \<open>get_chevron_led\<close> and
  \<open>get_chevron_motor\<close> fail with ConfigurationError and return the board exactly
  as it was: no attribute and no entry of the hardware log has changed.
\<close>

theorem chevron_lookup_no_entry:
  "(board_cfg s (''chevron_'' @ str n @ ''_led_channel'') = None
      \<longrightarrow> get_chevron_led n s = (Inl ConfigurationError, s))
   \<and> (board_cfg s (''chevron_'' @ str n @ ''_motor_channel'') = None
      \<longrightarrow> get_chevron_motor n s = (Inl ConfigurationError, s))"
  by (simp add: get_chevron_led_def get_chevron_motor_def board_cfg_get_def)

theorem chevron_lookup_no_entry_witness:
  "board_cfg (ElectronicsMainBoard1V1 (example_installation True True [0, 0]))
      (''chevron_'' @ str 9 @ ''_led_channel'') = None
   \<and> board_cfg (ElectronicsMainBoard1V1 (example_installation True True [0, 0]))
      (''chevron_'' @ str 9 @ ''_motor_channel'') = None
   \<and> get_chevron_led 9 (ElectronicsMainBoard1V1 (example_installation True True [0, 0]))
       = (Inl ConfigurationError, ElectronicsMainBoard1V1 (example_installation True True [0, 0]))
   \<and> get_chevron_motor 9 (ElectronicsMainBoard1V1 (example_installation True True [0, 0]))
       = (Inl ConfigurationError, ElectronicsMainBoard1V1 (example_installation True True [0, 0]))"
  using chevron_lookup_no_entry
    [of "ElectronicsMainBoard1V1 (example_installation True True [0, 0])" 9]
  by (simp add: init_board_cfg example_simps)

lemma int_1_7: "{1..7::int} = {1, 2, 3, 4, 5, 6, 7}"
  by auto

lemma int_1_9: "{1..9::int} = {1, 2, 3, 4, 5, 6, 7, 8, 9}"
  by auto

lemma dom_chevrons: "dom chevrons = {1..9}"
  by (auto simp add: chevrons_def int_1_9)

lemma dom_led_channels: "dom (led_channels (ElectronicsMainBoard1V1 inst)) = {1..7}"
  by (auto simp add: init_led_channels int_1_7)

lemma dom_motor_channels: "dom (motor_channels (ElectronicsMainBoard1V1 inst)) = {1..7}"
  by (auto simp add: init_motor_channels int_1_7)

lemma get_chevron_led_result:
  "board_cfg s (''chevron_'' @ str n @ ''_led_channel'') = Some ch \<Longrightarrow>
   get_chevron_led n s =
     (case led_channels s ch of None \<Rightarrow> (Inl KeyError, s) | Some l \<Rightarrow> (Inr l, s))"
  by (simp add: get_chevron_led_def board_cfg_get_def)

lemma get_chevron_motor_result:
  "board_cfg s (''chevron_'' @ str n @ ''_motor_channel'') = Some ch \<Longrightarrow>
   get_chevron_motor n s =
     (case motor_channels s ch of None \<Rightarrow> (Inl KeyError, s) | Some m \<Rightarrow> (Inr m, s))"
  by (simp add: get_chevron_motor_def board_cfg_get_def)

lemma not_in_dom_led:
  "ch < 1 \<or> 7 < ch \<Longrightarrow> led_channels (ElectronicsMainBoard1V1 inst) ch = None"
  by (auto simp add: init_led_channels)

lemma not_in_dom_motor:
  "ch < 1 \<or> 7 < ch \<Longrightarrow> motor_channels (ElectronicsMainBoard1V1 inst) ch = None"
  by (auto simp add: init_motor_channels)

lemma in_dom_led:
  "1 \<le> ch \<Longrightarrow> ch \<le> 7 \<Longrightarrow> \<exists>l. led_channels (ElectronicsMainBoard1V1 inst) ch = Some l"
  using channel_cases [of ch] by (auto simp add: init_led_channels)

text \<open>
  C10.  The chevron table has the nine keys 1..9, while the board registers LED
  and motor channels under the keys 1..7 only.  So for a remap entry whose
  channel lies outside 1..7 both lookups fail with \<open>KeyError\<close> on the channel
  table (leaving the board as it was), and for an entry whose channel lies in
  1..7 both succeed: chevrons can be remapped onto those seven channels only.
\<close>

theorem chevron_channel_outside_table:
  "dom chevrons = {1..9}
   \<and> dom (led_channels (ElectronicsMainBoard1V1 inst)) = {1..7}
   \<and> dom (motor_channels (ElectronicsMainBoard1V1 inst)) = {1..7}
   \<and> (cfg_board_file inst (''chevron_'' @ str n @ ''_led_channel'') = Some ch
        \<and> (ch < 1 \<or> 7 < ch)
        \<longrightarrow> get_chevron_led n (ElectronicsMainBoard1V1 inst)
              = (Inl KeyError, ElectronicsMainBoard1V1 inst))
   \<and> (cfg_board_file inst (''chevron_'' @ str n @ ''_motor_channel'') = Some ch
        \<and> (ch < 1 \<or> 7 < ch)
        \<longrightarrow> get_chevron_motor n (ElectronicsMainBoard1V1 inst)
              = (Inl KeyError, ElectronicsMainBoard1V1 inst))
   \<and> (cfg_board_file inst (''chevron_'' @ str n @ ''_led_channel'') = Some ch
        \<and> 1 \<le> ch \<and> ch \<le> 7
        \<longrightarrow> (\<exists>l. get_chevron_led n (ElectronicsMainBoard1V1 inst)
              = (Inr l, ElectronicsMainBoard1V1 inst)))
   \<and> (cfg_board_file inst (''chevron_'' @ str n @ ''_motor_channel'') = Some ch
        \<and> 1 \<le> ch \<and> ch \<le> 7
        \<longrightarrow> (\<exists>m. get_chevron_motor n (ElectronicsMainBoard1V1 inst)
              = (Inr m, ElectronicsMainBoard1V1 inst)))"
proof -
  let ?b = "ElectronicsMainBoard1V1 inst"
  have led_out: "get_chevron_led n ?b = (Inl KeyError, ?b)"
    if "cfg_board_file inst (''chevron_'' @ str n @ ''_led_channel'') = Some ch"
      and "ch < 1 \<or> 7 < ch"
    using that by (simp add: get_chevron_led_result init_board_cfg not_in_dom_led)
  have motor_out: "get_chevron_motor n ?b = (Inl KeyError, ?b)"
    if "cfg_board_file inst (''chevron_'' @ str n @ ''_motor_channel'') = Some ch"
      and "ch < 1 \<or> 7 < ch"
    using that by (simp add: get_chevron_motor_result init_board_cfg not_in_dom_motor)
  have led_in: "\<exists>l. get_chevron_led n ?b = (Inr l, ?b)"
    if "cfg_board_file inst (''chevron_'' @ str n @ ''_led_channel'') = Some ch"
      and "1 \<le> ch" and "ch \<le> 7"
    using that in_dom_led [of ch inst]
    by (auto simp add: get_chevron_led_result init_board_cfg)
  have motor_in: "\<exists>m. get_chevron_motor n ?b = (Inr m, ?b)"
    if "cfg_board_file inst (''chevron_'' @ str n @ ''_motor_channel'') = Some ch"
      and "1 \<le> ch" and "ch \<le> 7"
    using that init_motor_channels_some [of ch inst]
    by (auto simp add: get_chevron_motor_result init_board_cfg)
  show ?thesis
    using led_out motor_out led_in motor_in
    by (simp add: dom_chevrons dom_led_channels dom_motor_channels)
qed

theorem chevron_channel_outside_table_witness:
  "cfg_board_file (example_installation True True [0, 0])
      (''chevron_'' @ str 8 @ ''_led_channel'') = Some 8
   \<and> cfg_board_file (example_installation True True [0, 0])
      (''chevron_'' @ str 8 @ ''_motor_channel'') = Some 8
   \<and> ((8::int) < 1 \<or> (7::int) < 8)
   \<and> get_chevron_led 8 (ElectronicsMainBoard1V1 (example_installation True True [0, 0]))
       = (Inl KeyError, ElectronicsMainBoard1V1 (example_installation True True [0, 0]))
   \<and> get_chevron_motor 8 (ElectronicsMainBoard1V1 (example_installation True True [0, 0]))
       = (Inl KeyError, ElectronicsMainBoard1V1 (example_installation True True [0, 0]))"
  using chevron_channel_outside_table [of "example_installation True True [0, 0]" 8 8]
  by (simp add: example_simps)

section \<open>The stepper\<close>

text \<open>
  C9.  When the board is constructed with \<open>stepper_motor_enable\<close> off, the stepper
  attribute holds a \<open>StepperSim\<close>, \<open>get_stepper\<close> returns that handle and leaves the
  board as it was, and the construction has written no PWM channel for it: the
  log holds the enable writes of the chevron motors when those are enabled and
  nothing else (an enabled stepper adds two writes, see \<open>init_pwm_writes\<close>).  The
  calls on the simulated handle leave the log as it is.
\<close>

theorem stepper_disabled_simulated:
  assumes "\<not> cfg_stepper_motor_enable inst"
  shows "\<exists>i. stepper1 (ElectronicsMainBoard1V1 inst) = Some (StepperSim i)
           \<and> get_stepper (ElectronicsMainBoard1V1 inst)
               = (StepperSim i, ElectronicsMainBoard1V1 inst)
           \<and> pwm_writes (ElectronicsMainBoard1V1 inst)
               = (if cfg_chevron_motors_enable inst then motor_enable_writes else [])
           \<and> (\<forall>direction style s.
                 pwm_writes (StepperSim_onestep direction style s) = pwm_writes s)
           \<and> (\<forall>s. pwm_writes (StepperSim_release s) = pwm_writes s)"
  using assms
  by (simp add: init_stepper1 get_stepper_def stepper_def init_pwm_writes
      StepperSim_onestep_def StepperSim_release_def)

theorem stepper_disabled_simulated_witness:
  "\<not> cfg_stepper_motor_enable (example_installation False False [0, 0])
   \<and> get_stepper (ElectronicsMainBoard1V1 (example_installation False False [0, 0]))
       = (StepperSim 7, ElectronicsMainBoard1V1 (example_installation False False [0, 0]))
   \<and> pwm_writes (ElectronicsMainBoard1V1 (example_installation False False [0, 0])) = []"
  using stepper_disabled_simulated [of "example_installation False False [0, 0]"]
  by (simp add: init_stepper1 example_simps)

end
